theory Spec2Isabelle
  imports Main
begin

section \<open>Data model\<close>

text \<open>
  Modelled from the spec: the type declarations of \<^verbatim>\<open>@/types/room\<close> are not under
  src/. The records below list the fields that \<^verbatim>\<open>src/web/features/room/action.ts\<close>
  reads and writes, with the ranges that section 3 of the specification gives them; the
  phases are the three that section names. JavaScript numbers are integers here, a
  value that may be \<^verbatim>\<open>null\<close> is an option, and an array is a list.

  Three field names are changed because HOL already owns them or they clash: a player's
  \<^verbatim>\<open>id\<close> is \<open>idp\<close>, a room's \<^verbatim>\<open>id\<close> is \<open>roomId\<close>, and a room's \<^verbatim>\<open>round\<close> is
  \<open>roundR\<close>.
\<close>

datatype Turn = Top | Bottom

datatype Phase = Select | Activate | Result

datatype Status = Shocked | Safe

record Player =
  idp :: string
  name :: string
  ready :: bool
  point :: int
  shockedCount :: int

record RoundResult =
  status :: "Status option"
  confirmedIds :: "string list"
  shownResult :: bool

record Round =
  attackerId :: string
  turn :: Turn
  count :: int
  phase :: Phase
  electricChair :: "int option"
  seatedChair :: "int option"
  result :: RoundResult

record GameRoom =
  roomId :: string
  players :: "Player list"
  roundR :: Round
  remainingChairs :: "int list"
  winnerId :: "string option"

text \<open>
  \<^verbatim>\<open>Partial<GameRoom>\<close>: every top-level field is either supplied or left out.
  For \<open>u_winnerId\<close> the outer option says whether the field is supplied, the inner one
  is the value (\<^verbatim>\<open>null\<close> is \<open>None\<close>).
\<close>

record RoomUpdate =
  u_players :: "Player list option"
  u_remainingChairs :: "int list option"
  u_winnerId :: "string option option"
  u_round :: "Round option"

text \<open>
  What a server action can answer instead of a room. \<open>TypeError\<close> is the exception that
  \<^verbatim>\<open>Array.prototype.reduce\<close> throws on an empty array without an initial value; the
  others are the error kinds the specification names.
\<close>

datatype error =
  NotFound | TypeError | InvalidStateError | NotAuthorizedError | StaleRoundError

type_synonym store = "string \<rightharpoonup> GameRoom"

section \<open>The document store\<close>

definition noUpdate :: RoomUpdate where
  "noUpdate = \<lparr>u_players = None, u_remainingChairs = None, u_winnerId = None, u_round = None\<rparr>"

text \<open>
  Modelled from the spec: \<^verbatim>\<open>updateRoom\<close> of \<^verbatim>\<open>@/libs/firestore\<close> is not under src/.
  Section 6 asks for partial-field merge semantics: only the supplied top-level fields
  are replaced.
\<close>

definition applyUpdate :: "GameRoom \<Rightarrow> RoomUpdate \<Rightarrow> GameRoom" where
  "applyUpdate room upd =
     room\<lparr>players := (case u_players upd of None \<Rightarrow> players room | Some ps \<Rightarrow> ps),
          remainingChairs :=
            (case u_remainingChairs upd of None \<Rightarrow> remainingChairs room | Some cs \<Rightarrow> cs),
          winnerId := (case u_winnerId upd of None \<Rightarrow> winnerId room | Some w \<Rightarrow> w),
          roundR := (case u_round upd of None \<Rightarrow> roundR room | Some r \<Rightarrow> r)\<rparr>"

text \<open>
  Modelled from the spec: \<^verbatim>\<open>getRoom\<close> of \<^verbatim>\<open>@/libs/firestore\<close> is not under src/.
  Section 6: \<^verbatim>\<open>readRoom(roomId) -> GameRoom | NotFound\<close>.
\<close>

definition getRoom :: "store \<Rightarrow> string \<Rightarrow> error + GameRoom" where
  "getRoom st rid = (case st rid of None \<Rightarrow> Inl NotFound | Some room \<Rightarrow> Inr room)"

text \<open>
  Modelled from the spec: \<^verbatim>\<open>updateRoom\<close> of \<^verbatim>\<open>@/libs/firestore\<close> is not under src/.
  It merges the update into the stored room and answers the merged room; a failed call
  leaves the store as it was (section 7).
\<close>

definition updateRoom :: "store \<Rightarrow> string \<Rightarrow> RoomUpdate \<Rightarrow> (error + GameRoom) \<times> store" where
  "updateRoom st rid upd =
     (case st rid of
        None \<Rightarrow> (Inl NotFound, st)
      | Some room \<Rightarrow> (Inr (applyUpdate room upd), st(rid \<mapsto> applyUpdate room upd)))"

section \<open>The round outcome resolver: \<^verbatim>\<open>activateAction\<close>\<close>

text \<open>\<^verbatim>\<open>round.electricChair === round.seatedChair\<close>; two \<^verbatim>\<open>null\<close>s are equal.\<close>

definition isShocked :: "Round \<Rightarrow> bool" where
  "isShocked r \<longleftrightarrow> electricChair r = seatedChair r"

text \<open>\<^verbatim>\<open>round.seatedChair || 0\<close>: \<^verbatim>\<open>null\<close> and 0 both give 0.\<close>

definition seatedOrZero :: "Round \<Rightarrow> int" where
  "seatedOrZero r = (case seatedChair r of None \<Rightarrow> 0 | Some c \<Rightarrow> c)"

text \<open>The function mapped over \<^verbatim>\<open>players\<close> (lines 132 to 141).\<close>

definition updatePlayer :: "Round \<Rightarrow> Player \<Rightarrow> Player" where
  "updatePlayer r player =
     (if idp player = attackerId r
      then player\<lparr>point := (if isShocked r then 0 else point player + seatedOrZero r),
                  shockedCount :=
                    (if isShocked r then shockedCount player + 1 else shockedCount player)\<rparr>
      else player)"

definition updatedPlayers :: "GameRoom \<Rightarrow> Player list" where
  "updatedPlayers room = map (updatePlayer (roundR room)) (players room)"

text \<open>Lines 144 to 146; \<^verbatim>\<open>chair !== null\<close> is true of every chair.\<close>

definition newRemainingChairs :: "GameRoom \<Rightarrow> int list" where
  "newRemainingChairs room =
     (if isShocked (roundR room) then remainingChairs room
      else filter (\<lambda>chair. Some chair \<noteq> seatedChair (roundR room)) (remainingChairs room))"

text \<open>
  Lines 151 to 153: the id of the first player that is not the attacker, \<^verbatim>\<open>undefined\<close>
  (here \<open>None\<close>) when there is none.
\<close>

definition defenderId :: "GameRoom \<Rightarrow> string option" where
  "defenderId room =
     map_option idp (find (\<lambda>player. idp player \<noteq> attackerId (roundR room)) (players room))"

text \<open>
  The accumulator of the \<^verbatim>\<open>reduce\<close> of lines 159 to 166: a player, or the object
  \<^verbatim>\<open>{ id: "draw" }\<close>, which has no \<^verbatim>\<open>point\<close>. Against an absent \<^verbatim>\<open>point\<close> both
  \<^verbatim>\<open>>\<close> and \<^verbatim>\<open>===\<close> are false, so the callback answers \<^verbatim>\<open>prev\<close>.
\<close>

datatype Reduced = Real Player | DrawObject

fun reduceStep :: "Reduced \<Rightarrow> Player \<Rightarrow> Reduced" where
  "reduceStep (Real prev) current =
     (if point current > point prev then Real current
      else if point current = point prev then DrawObject
      else Real prev)"
| "reduceStep DrawObject current = DrawObject"

fun reducedId :: "Reduced \<Rightarrow> string" where
  "reducedId (Real p) = idp p"
| "reducedId DrawObject = ''draw''"

text \<open>\<^verbatim>\<open>reduce\<close> without an initial value: the first element starts, an empty array throws.\<close>

definition reduceWinner :: "Player list \<Rightarrow> error + string" where
  "reduceWinner ps =
     (case ps of
        [] \<Rightarrow> Inl TypeError
      | p # rest \<Rightarrow> Inr (reducedId (foldl reduceStep (Real p) rest)))"

text \<open>Lines 149 to 168.\<close>

definition decideWinner :: "GameRoom \<Rightarrow> error + string option" where
  "decideWinner room =
     (if list_ex (\<lambda>player. point player \<ge> 40) (updatedPlayers room)
      then Inr (Some (attackerId (roundR room)))
      else if list_ex (\<lambda>player. shockedCount player = 3) (updatedPlayers room)
      then Inr (defenderId room)
      else if length (newRemainingChairs room) = 1
      then (case reduceWinner (updatedPlayers room) of
              Inl e \<Rightarrow> Inl e
            | Inr w \<Rightarrow> Inr (Some w))
      else Inr None)"

text \<open>Lines 174 to 181.\<close>

definition resultRound :: "Round \<Rightarrow> Round" where
  "resultRound r =
     r\<lparr>phase := Result,
       result := (result r)\<lparr>status := Some (if isShocked r then Shocked else Safe)\<rparr>\<rparr>"

text \<open>The object \<^verbatim>\<open>data\<close> of lines 170 to 182.\<close>

definition activateData :: "GameRoom \<Rightarrow> error + RoomUpdate" where
  "activateData room =
     (case decideWinner room of
        Inl e \<Rightarrow> Inl e
      | Inr w \<Rightarrow>
          Inr \<lparr>u_players = Some (updatedPlayers room),
               u_remainingChairs = Some (newRemainingChairs room),
               u_winnerId = Some w,
               u_round = Some (resultRound (roundR room))\<rparr>)"

text \<open>The resolver as a transformation of the room: the update, merged.\<close>

definition activate :: "GameRoom \<Rightarrow> error + GameRoom" where
  "activate room =
     (case activateData room of Inl e \<Rightarrow> Inl e | Inr upd \<Rightarrow> Inr (applyUpdate room upd))"

text \<open>\<^verbatim>\<open>activateAction\<close> (lines 120 to 190) against the store.\<close>

definition activateAction :: "store \<Rightarrow> string \<Rightarrow> (error + GameRoom) \<times> store" where
  "activateAction st rid =
     (case getRoom st rid of
        Inl e \<Rightarrow> (Inl e, st)
      | Inr room \<Rightarrow>
          (case activateData room of
             Inl e \<Rightarrow> (Inl e, st)
           | Inr upd \<Rightarrow> updateRoom st rid upd))"

section \<open>The turn confirmation barrier: \<^verbatim>\<open>changeTurnAction\<close>\<close>

text \<open>
  The callback of lines 199 to 241. Its first argument is \<^verbatim>\<open>plainRoundData.round\<close> of
  \<^verbatim>\<open>@/utils/room\<close>, which is not under src/. \<open>nextAttackerId\<close> is line 217; it is
  evaluated only where \<open>confirmedIds\<close> has two entries, so \<^verbatim>\<open>confirmedIds[0]\<close> exists.
\<close>

definition nextAttackerId :: "Round \<Rightarrow> string list \<Rightarrow> string" where
  "nextAttackerId r cids =
     (case find (\<lambda>i. i \<noteq> attackerId r) cids of Some i \<Rightarrow> i | None \<Rightarrow> cids ! 0)"

definition changeTurnResolver :: "Round \<Rightarrow> Round \<Rightarrow> string list \<Rightarrow> RoomUpdate option" where
  "changeTurnResolver plain r cids =
     (if length cids = 1
      then Some (noUpdate\<lparr>u_round :=
             Some (r\<lparr>result := (result r)\<lparr>confirmedIds := cids, shownResult := True\<rparr>\<rparr>)\<rparr>)
      else if length cids = 2
      then (if turn r = Top
            then Some (noUpdate\<lparr>u_round :=
                   Some (plain\<lparr>attackerId := nextAttackerId r cids,
                               turn := Bottom, count := count r\<rparr>)\<rparr>)
            else Some (noUpdate\<lparr>u_round :=
                   Some (plain\<lparr>attackerId := nextAttackerId r cids,
                               turn := Top, count := count r + 1\<rparr>)\<rparr>))
      else None)"

text \<open>
  Modelled from the spec: \<^verbatim>\<open>plainRoundData.round\<close> of \<^verbatim>\<open>@/utils/room\<close> is not under
  src/. Section 4.2: the per-round transient fields at their initial \<open>select\<close> values,
  with no chair chosen, no status, nobody confirmed and no result shown. Its attacker,
  turn and count are overwritten wherever the source uses it.
\<close>

definition plainRound :: Round where
  "plainRound =
     \<lparr>attackerId = [], turn = Top, count = 1, phase = Select,
      electricChair = None, seatedChair = None,
      result = \<lparr>status = None, confirmedIds = [], shownResult = False\<rparr>\<rparr>"

text \<open>
  Modelled from the spec: \<^verbatim>\<open>confirmTurnResult\<close> of \<^verbatim>\<open>@/libs/firestore\<close> is not under
  src/. Sections 4.2 and 6: the confirming id must be one of the room's players
  (\<open>NotAuthorizedError\<close>), the round must be in its \<open>result\<close> phase (\<open>StaleRoundError\<close>),
  the id is appended to the recorded \<open>confirmedIds\<close>, the callback is run on the current
  round and the extended sequence, and nothing is written when it answers \<^verbatim>\<open>null\<close>.
\<close>

definition confirmTurnResult ::
  "store \<Rightarrow> string \<Rightarrow> string \<Rightarrow> (Round \<Rightarrow> string list \<Rightarrow> RoomUpdate option)
     \<Rightarrow> (error + GameRoom) \<times> store" where
  "confirmTurnResult st rid userId resolverFn =
     (case st rid of
        None \<Rightarrow> (Inl NotFound, st)
      | Some room \<Rightarrow>
          if userId \<notin> set (map idp (players room)) then (Inl NotAuthorizedError, st)
          else if phase (roundR room) \<noteq> Result then (Inl StaleRoundError, st)
          else (case resolverFn (roundR room)
                       (confirmedIds (result (roundR room)) @ [userId]) of
                  None \<Rightarrow> (Inr room, st)
                | Some upd \<Rightarrow> updateRoom st rid upd))"

definition changeTurnAction ::
  "Round \<Rightarrow> store \<Rightarrow> string \<Rightarrow> string \<Rightarrow> (error + GameRoom) \<times> store" where
  "changeTurnAction plain st rid userId =
     confirmTurnResult st rid userId (changeTurnResolver plain)"

section \<open>Example rooms\<close>

text \<open>
  Concrete rooms with two players \<open>p1\<close> and \<open>p2\<close>, used to run the definitions.
  \<open>mkPlayer\<close> takes the id, the points and the shock count; \<open>mkRound\<close> the attacker, the
  phase, the electric chair, the seated chair and the result status.
\<close>

definition mkPlayer :: "string \<Rightarrow> int \<Rightarrow> int \<Rightarrow> Player" where
  "mkPlayer i pt sc = \<lparr>idp = i, name = i, ready = True, point = pt, shockedCount = sc\<rparr>"

definition mkRound ::
  "string \<Rightarrow> Phase \<Rightarrow> int option \<Rightarrow> int option \<Rightarrow> Status option \<Rightarrow> Round" where
  "mkRound att ph ec sc st =
     \<lparr>attackerId = att, turn = Top, count = 1, phase = ph,
      electricChair = ec, seatedChair = sc,
      result = \<lparr>status = st, confirmedIds = [], shownResult = False\<rparr>\<rparr>"

definition mkRoom :: "Player list \<Rightarrow> Round \<Rightarrow> int list \<Rightarrow> string option \<Rightarrow> GameRoom" where
  "mkRoom ps r cs w =
     \<lparr>roomId = ''room1'', players = ps, roundR = r, remainingChairs = cs, winnerId = w\<rparr>"

text \<open>Scenario A of the specification: 38 points, a safe seat worth 2.\<close>

definition scenarioA :: GameRoom where
  "scenarioA =
     mkRoom [mkPlayer ''p1'' 38 0, mkPlayer ''p2'' 10 0]
       (mkRound ''p1'' Activate (Some 5) (Some 2) None) [2, 5, 7] None"

definition scenarioA_after :: GameRoom where
  "scenarioA_after =
     mkRoom [mkPlayer ''p1'' 40 0, mkPlayer ''p2'' 10 0]
       (mkRound ''p1'' Result (Some 5) (Some 2) (Some Safe)) [5, 7] (Some ''p1'')"

text \<open>Scenario B: two shocks so far, and the seat taken is the electric one.\<close>

definition scenarioB :: GameRoom where
  "scenarioB =
     mkRoom [mkPlayer ''p1'' 12 2, mkPlayer ''p2'' 10 0]
       (mkRound ''p1'' Activate (Some 3) (Some 3) None) [3, 5, 7] None"

definition scenarioB_after :: GameRoom where
  "scenarioB_after =
     mkRoom [mkPlayer ''p1'' 0 3, mkPlayer ''p2'' 10 0]
       (mkRound ''p1'' Result (Some 3) (Some 3) (Some Shocked)) [3, 5, 7] (Some ''p2'')"

text \<open>Scenario C: one chair left before the activation, a safe seat, 20 points each after.\<close>

definition scenarioC :: GameRoom where
  "scenarioC =
     mkRoom [mkPlayer ''p1'' 16 0, mkPlayer ''p2'' 20 0]
       (mkRound ''p1'' Activate (Some 5) (Some 4) None) [4] None"

definition scenarioC_after :: GameRoom where
  "scenarioC_after =
     mkRoom [mkPlayer ''p1'' 20 0, mkPlayer ''p2'' 20 0]
       (mkRound ''p1'' Result (Some 5) (Some 4) (Some Safe)) [] None"

text \<open>Two chairs left before the activation, one after it, 20 points each.\<close>

definition tieRoom :: GameRoom where
  "tieRoom =
     mkRoom [mkPlayer ''p1'' 16 0, mkPlayer ''p2'' 20 0]
       (mkRound ''p1'' Activate (Some 7) (Some 4) None) [4, 7] None"

definition tieRoom_after :: GameRoom where
  "tieRoom_after =
     mkRoom [mkPlayer ''p1'' 20 0, mkPlayer ''p2'' 20 0]
       (mkRound ''p1'' Result (Some 7) (Some 4) (Some Safe)) [7] (Some ''draw'')"

text \<open>Chair 0 is the electric chair and the seat taken, and the attacker has no points.\<close>

definition zeroRoom :: GameRoom where
  "zeroRoom =
     mkRoom [mkPlayer ''p1'' 0 0, mkPlayer ''p2'' 0 0]
       (mkRound ''p1'' Activate (Some 0) (Some 0) None) [0, 1, 2, 3] None"

definition zeroRoom_after :: GameRoom where
  "zeroRoom_after =
     mkRoom [mkPlayer ''p1'' 0 1, mkPlayer ''p2'' 0 0]
       (mkRound ''p1'' Result (Some 0) (Some 0) (Some Shocked)) [0, 1, 2, 3] None"

text \<open>\<open>p2\<close> has won on points, and \<open>p1\<close> attacks in a further round.\<close>

definition lateRoom :: GameRoom where
  "lateRoom =
     mkRoom [mkPlayer ''p1'' 10 0, mkPlayer ''p2'' 45 0]
       (mkRound ''p1'' Activate (Some 5) (Some 2) None) [2, 5, 7] (Some ''p2'')"

definition lateRoom_after :: GameRoom where
  "lateRoom_after =
     mkRoom [mkPlayer ''p1'' 12 0, mkPlayer ''p2'' 45 0]
       (mkRound ''p1'' Result (Some 5) (Some 2) (Some Safe)) [5, 7] (Some ''p1'')"

text \<open>\<open>p1\<close> has won on points, attacks again and is shocked.\<close>

definition wonRoom :: GameRoom where
  "wonRoom =
     mkRoom [mkPlayer ''p1'' 40 0, mkPlayer ''p2'' 10 0]
       (mkRound ''p1'' Activate (Some 3) (Some 3) None) [3, 5, 7] (Some ''p1'')"

definition wonRoom_after :: GameRoom where
  "wonRoom_after =
     mkRoom [mkPlayer ''p1'' 0 1, mkPlayer ''p2'' 10 0]
       (mkRound ''p1'' Result (Some 3) (Some 3) (Some Shocked)) [3, 5, 7] None"

text \<open>A round still in its \<open>select\<close> phase, with no seat chosen.\<close>

definition selectRoom :: GameRoom where
  "selectRoom =
     mkRoom [mkPlayer ''p1'' 7 0, mkPlayer ''p2'' 3 0]
       (mkRound ''p1'' Select (Some 3) None None) [1, 2, 3] None"

definition selectRoom_after :: GameRoom where
  "selectRoom_after =
     mkRoom [mkPlayer ''p1'' 7 0, mkPlayer ''p2'' 3 0]
       (mkRound ''p1'' Result (Some 3) None (Some Safe)) [1, 2, 3] None"

text \<open>A round in its \<open>result\<close> phase (scenario D: turn \<open>bottom\<close>, count 3).\<close>

definition scenarioD_round :: Round where
  "scenarioD_round =
     (mkRound ''p1'' Result (Some 5) (Some 2) (Some Safe))\<lparr>turn := Bottom, count := 3\<rparr>"

definition saturatedRoom :: GameRoom where
  "saturatedRoom =
     mkRoom [mkPlayer ''p1'' 12 0, mkPlayer ''p2'' 10 0]
       (scenarioD_round\<lparr>result := \<lparr>status = Some Safe, confirmedIds = [''p1'', ''p2''],
                                    shownResult = True\<rparr>\<rparr>)
       [5, 7] None"

text \<open>Scenario A after its activation and the first confirmation, by \<open>p1\<close>.\<close>

definition confirmedOnce :: GameRoom where
  "confirmedOnce =
     mkRoom [mkPlayer ''p1'' 40 0, mkPlayer ''p2'' 10 0]
       ((mkRound ''p1'' Result (Some 5) (Some 2) (Some Safe))
          \<lparr>result := \<lparr>status = Some Safe, confirmedIds = [''p1''], shownResult = True\<rparr>\<rparr>)
       [5, 7] (Some ''p1'')"

text \<open>The same room after the second confirmation, by \<open>p2\<close>, and after one more activation.\<close>

definition nextRoundRoom :: GameRoom where
  "nextRoundRoom =
     mkRoom [mkPlayer ''p1'' 40 0, mkPlayer ''p2'' 10 0]
       (plainRound\<lparr>attackerId := ''p2'', turn := Bottom, count := 1\<rparr>)
       [5, 7] (Some ''p1'')"

definition nextRoundRoom_after :: GameRoom where
  "nextRoundRoom_after =
     mkRoom [mkPlayer ''p1'' 40 0, mkPlayer ''p2'' 0 1]
       ((mkRound ''p2'' Result None None (Some Shocked))\<lparr>turn := Bottom\<rparr>)
       [5, 7] (Some ''p2'')"

lemmas resolver_defs =
  activate_def activateData_def decideWinner_def reduceWinner_def resultRound_def
  defenderId_def newRemainingChairs_def updatedPlayers_def updatePlayer_def
  seatedOrZero_def isShocked_def applyUpdate_def

lemmas example_defs = mkPlayer_def mkRound_def mkRoom_def

section \<open>General facts about the resolver\<close>

lemma decideWinner_total:
  "players room \<noteq> [] \<Longrightarrow> \<exists>w. decideWinner room = Inr w"
  by (cases "players room") (simp_all add: decideWinner_def reduceWinner_def updatedPlayers_def)

lemma activate_total:
  "players room \<noteq> [] \<Longrightarrow> \<exists>room'. activate room = Inr room'"
  using decideWinner_total [of room]
  by (auto simp: activate_def activateData_def)

lemma activate_fields:
  assumes "activate room = Inr room'"
  shows "players room' = updatedPlayers room"
    and "remainingChairs room' = newRemainingChairs room"
    and "roundR room' = resultRound (roundR room)"
    and "decideWinner room = Inr (winnerId room')"
    and "roomId room' = roomId room"
  using assms
  by (auto simp: activate_def activateData_def applyUpdate_def split: sum.splits)

lemma updatedPlayers_nth:
  "i < length (players room) \<Longrightarrow>
     updatedPlayers room ! i = updatePlayer (roundR room) (players room ! i)"
  by (simp add: updatedPlayers_def)

lemma length_updatedPlayers: "length (updatedPlayers room) = length (players room)"
  by (simp add: updatedPlayers_def)

lemma idp_updatePlayer: "idp (updatePlayer r p) = idp p"
  by (simp add: updatePlayer_def)

lemma updatePlayer_other: "idp p \<noteq> attackerId r \<Longrightarrow> updatePlayer r p = p"
  by (simp add: updatePlayer_def)

lemma reduceWinner_two:
  "reduceWinner [a, b] =
     Inr (if point b > point a then idp b else if point b = point a then ''draw'' else idp a)"
  by (simp add: reduceWinner_def)

lemma decideWinner_two:
  assumes "updatedPlayers room = [a, b]"
  shows "decideWinner room =
     Inr (if point a \<ge> 40 \<or> point b \<ge> 40 then Some (attackerId (roundR room))
          else if shockedCount a = 3 \<or> shockedCount b = 3 then defenderId room
          else if length (newRemainingChairs room) = 1
          then Some (if point b > point a then idp b
                     else if point b = point a then ''draw'' else idp a)
          else None)"
  by (simp add: decideWinner_def assms reduceWinner_two)

section \<open>The attacker's statistics\<close>

text \<open>
  Claim C1, amended. When the resolver is applied with a seat \<open>c\<close> chosen, every player
  whose id is the attacker's gets: on a shock (the electric chair is \<open>c\<close>) \<open>point\<close> 0 and
  \<open>shockedCount\<close> one more; otherwise \<open>point\<close> raised by \<open>c\<close> and \<open>shockedCount\<close> as it was.
  Exactly one of "\<open>point\<close> is the old \<open>point\<close> plus \<open>c\<close>" and "\<open>shockedCount\<close> is the old one
  plus 1" holds, except on a shock with old \<open>point\<close> plus \<open>c\<close> equal to 0, where both hold.
  The resolver does return a room here.
\<close>

theorem attacker_stats:
  assumes seated: "seatedChair (roundR room) = Some c"
    and i: "i < length (players room)"
    and att: "idp (players room ! i) = attackerId (roundR room)"
  shows "\<exists>room'. activate room = Inr room' \<and>
           length (players room') = length (players room) \<and>
           point (players room' ! i) =
             (if electricChair (roundR room) = Some c then 0 else point (players room ! i) + c) \<and>
           shockedCount (players room' ! i) =
             (if electricChair (roundR room) = Some c then shockedCount (players room ! i) + 1
              else shockedCount (players room ! i)) \<and>
           (if electricChair (roundR room) = Some c \<and> point (players room ! i) + c = 0
            then point (players room' ! i) = point (players room ! i) + c \<and>
                 shockedCount (players room' ! i) = shockedCount (players room ! i) + 1
            else (point (players room' ! i) = point (players room ! i) + c) \<noteq>
                 (shockedCount (players room' ! i) = shockedCount (players room ! i) + 1))"
proof -
  from i have "players room \<noteq> []" by auto
  then obtain room' where r: "activate room = Inr room'"
    using activate_total by blast
  have ps: "players room' = updatedPlayers room"
    using r by (rule activate_fields)
  have nth: "players room' ! i = updatePlayer (roundR room) (players room ! i)"
    using ps i by (simp add: updatedPlayers_nth)
  show ?thesis
    using r ps nth att seated
    by (auto simp: length_updatedPlayers updatePlayer_def isShocked_def seatedOrZero_def)
qed

text \<open>The theorem at scenario A (safe, seat 2) and scenario B (shocked, seat 3).\<close>

theorem attacker_stats_witness:
  "activate scenarioA = Inr scenarioA_after \<and>
   point (players scenarioA_after ! 0) = point (players scenarioA ! 0) + 2 \<and>
   shockedCount (players scenarioA_after ! 0) = shockedCount (players scenarioA ! 0) \<and>
   activate scenarioB = Inr scenarioB_after \<and>
   point (players scenarioB_after ! 0) = 0 \<and>
   shockedCount (players scenarioB_after ! 0) = shockedCount (players scenarioB ! 0) + 1"
  using attacker_stats [of scenarioA 2 0] attacker_stats [of scenarioB 3 0]
  by (simp add: scenarioA_def scenarioA_after_def scenarioB_def scenarioB_after_def
      resolver_defs example_defs)

text \<open>
  Claim C1 as stated fails in \<open>zeroRoom\<close>: the attacker is shocked on chair 0 with 0 points,
  so \<open>point\<close> is the old \<open>point\<close> plus the seat and \<open>shockedCount\<close> is one more, both at once.
\<close>

theorem attacker_stats_both_counterexample:
  "seatedChair (roundR zeroRoom) = Some 0 \<and>
   idp (players zeroRoom ! 0) = attackerId (roundR zeroRoom) \<and>
   activate zeroRoom = Inr zeroRoom_after \<and>
   point (players zeroRoom_after ! 0) = point (players zeroRoom ! 0) + 0 \<and>
   shockedCount (players zeroRoom_after ! 0) = shockedCount (players zeroRoom ! 0) + 1"
  by (simp add: zeroRoom_def zeroRoom_after_def resolver_defs example_defs)

section \<open>Winner determination\<close>

lemma defenderId_pair:
  "players room = [p, q] \<Longrightarrow>
     defenderId room =
       (if idp p \<noteq> attackerId (roundR room) then Some (idp p)
        else if idp q \<noteq> attackerId (roundR room) then Some (idp q)
        else None)"
  by (simp add: defenderId_def)

text \<open>
  Claim C2, amended. In a room of two players the resolver returns a room whose
  \<open>winnerId\<close> is decided in this order: \<open>round.attackerId\<close> if either updated player has 40
  points or more; else, if either has exactly 3 shocks, the id of the first player that
  is not the attacker (\<open>null\<close> if there is none); else, if exactly one chair remains, the
  strictly higher scorer, or \<open>draw\<close> on a tie; else \<open>null\<close>. The attacker and that first
  other player are written whoever holds the points or the shocks. Where the attacker
  is one of the two players and the other one has fewer than 40 points and a shock
  count other than 3, the score winner is the player with the 40 points and the
  elimination winner is the player without the 3 shocks.
\<close>

theorem winner_priority:
  assumes ps: "players room = [p, q]"
  shows "\<exists>room' p' q'. activate room = Inr room' \<and> players room' = [p', q'] \<and>
           idp p' = idp p \<and> idp q' = idp q \<and>
           winnerId room' =
             (if 40 \<le> point p' \<or> 40 \<le> point q' then Some (attackerId (roundR room))
              else if shockedCount p' = 3 \<or> shockedCount q' = 3
              then (if idp p \<noteq> attackerId (roundR room) then Some (idp p)
                    else if idp q \<noteq> attackerId (roundR room) then Some (idp q)
                    else None)
              else if length (remainingChairs room') = 1
              then (if point p' < point q' then Some (idp q')
                    else if point q' = point p' then Some ''draw''
                    else Some (idp p'))
              else None) \<and>
           (idp p = attackerId (roundR room) \<and> idp q \<noteq> idp p \<and>
            point q < 40 \<and> shockedCount q \<noteq> 3 \<longrightarrow>
              q' = q \<and>
              (40 \<le> point p' \<or> 40 \<le> point q' \<longrightarrow>
                 40 \<le> point p' \<and> winnerId room' = Some (idp p')) \<and>
              (\<not> (40 \<le> point p' \<or> 40 \<le> point q') \<and>
               (shockedCount p' = 3 \<or> shockedCount q' = 3) \<longrightarrow>
                 shockedCount p' = 3 \<and> shockedCount q' \<noteq> 3 \<and>
                 winnerId room' = Some (idp q'))) \<and>
           (idp q = attackerId (roundR room) \<and> idp p \<noteq> idp q \<and>
            point p < 40 \<and> shockedCount p \<noteq> 3 \<longrightarrow>
              p' = p \<and>
              (40 \<le> point p' \<or> 40 \<le> point q' \<longrightarrow>
                 40 \<le> point q' \<and> winnerId room' = Some (idp q')) \<and>
              (\<not> (40 \<le> point p' \<or> 40 \<le> point q') \<and>
               (shockedCount p' = 3 \<or> shockedCount q' = 3) \<longrightarrow>
                 shockedCount q' = 3 \<and> shockedCount p' \<noteq> 3 \<and>
                 winnerId room' = Some (idp p')))"
proof -
  define p' where "p' = updatePlayer (roundR room) p"
  define q' where "q' = updatePlayer (roundR room) q"
  from ps have "players room \<noteq> []" by auto
  then obtain room' where r: "activate room = Inr room'"
    using activate_total by blast
  note f = activate_fields [OF r]
  have up: "updatedPlayers room = [p', q']"
    using ps by (simp add: updatedPlayers_def p'_def q'_def)
  have pl: "players room' = [p', q']"
    using f(1) up by simp
  have ids: "idp p' = idp p" "idp q' = idp q"
    by (simp_all add: p'_def q'_def idp_updatePlayer)
  have "Inr (winnerId room') = decideWinner room"
    using f(4) by simp
  then have w: "winnerId room' =
      (if 40 \<le> point p' \<or> 40 \<le> point q' then Some (attackerId (roundR room))
       else if shockedCount p' = 3 \<or> shockedCount q' = 3
       then (if idp p \<noteq> attackerId (roundR room) then Some (idp p)
             else if idp q \<noteq> attackerId (roundR room) then Some (idp q)
             else None)
       else if length (remainingChairs room') = 1
       then (if point p' < point q' then Some (idp q')
             else if point q' = point p' then Some ''draw''
             else Some (idp p'))
       else None)"
    unfolding decideWinner_two [OF up] defenderId_pair [OF ps] f(2) by simp
  have qsame: "q' = q" if "idp p = attackerId (roundR room)" "idp q \<noteq> idp p"
    using that by (simp add: q'_def updatePlayer_other)
  have psame: "p' = p" if "idp q = attackerId (roundR room)" "idp p \<noteq> idp q"
    using that by (simp add: p'_def updatePlayer_other)
  have first: "idp p = attackerId (roundR room) \<and> idp q \<noteq> idp p \<and>
      point q < 40 \<and> shockedCount q \<noteq> 3 \<longrightarrow>
        q' = q \<and>
        (40 \<le> point p' \<or> 40 \<le> point q' \<longrightarrow>
           40 \<le> point p' \<and> winnerId room' = Some (idp p')) \<and>
        (\<not> (40 \<le> point p' \<or> 40 \<le> point q') \<and>
         (shockedCount p' = 3 \<or> shockedCount q' = 3) \<longrightarrow>
           shockedCount p' = 3 \<and> shockedCount q' \<noteq> 3 \<and>
           winnerId room' = Some (idp q'))"
    using qsame ids by (auto simp: w)
  have second: "idp q = attackerId (roundR room) \<and> idp p \<noteq> idp q \<and>
      point p < 40 \<and> shockedCount p \<noteq> 3 \<longrightarrow>
        p' = p \<and>
        (40 \<le> point p' \<or> 40 \<le> point q' \<longrightarrow>
           40 \<le> point q' \<and> winnerId room' = Some (idp q')) \<and>
        (\<not> (40 \<le> point p' \<or> 40 \<le> point q') \<and>
         (shockedCount p' = 3 \<or> shockedCount q' = 3) \<longrightarrow>
           shockedCount q' = 3 \<and> shockedCount p' \<noteq> 3 \<and>
           winnerId room' = Some (idp p'))"
    using psame ids by (auto simp: w)
  from r pl ids w first second show ?thesis
    apply -
    apply (rule exI [of _ room'])
    apply (rule exI [of _ p'])
    apply (rule exI [of _ q'])
    apply (intro conjI)
         apply assumption+
    done
qed

text \<open>
  The theorem at scenario A (score), scenario B (elimination), a tie on the last chair,
  and \<open>lateRoom\<close>, where the attacker wins on the other player's points.
\<close>

theorem winner_priority_witness:
  "activate scenarioA = Inr scenarioA_after \<and> winnerId scenarioA_after = Some ''p1'' \<and>
   activate scenarioB = Inr scenarioB_after \<and> winnerId scenarioB_after = Some ''p2'' \<and>
   activate tieRoom = Inr tieRoom_after \<and> winnerId tieRoom_after = Some ''draw'' \<and>
   activate lateRoom = Inr lateRoom_after \<and>
   winnerId lateRoom_after = Some (attackerId (roundR lateRoom))"
  using winner_priority [of scenarioA "mkPlayer ''p1'' 38 0" "mkPlayer ''p2'' 10 0"]
    winner_priority [of scenarioB "mkPlayer ''p1'' 12 2" "mkPlayer ''p2'' 10 0"]
    winner_priority [of tieRoom "mkPlayer ''p1'' 16 0" "mkPlayer ''p2'' 20 0"]
    winner_priority [of lateRoom "mkPlayer ''p1'' 10 0" "mkPlayer ''p2'' 45 0"]
  by (simp add: scenarioA_def scenarioA_after_def scenarioB_def scenarioB_after_def
      tieRoom_def tieRoom_after_def lateRoom_def lateRoom_after_def
      resolver_defs example_defs)

text \<open>
  Claim C2 as stated fails in \<open>lateRoom\<close>: \<open>p2\<close> is the player with 40 points or more
  and \<open>p1\<close>, the attacker, with 12 points, is made the winner.
\<close>

theorem winner_priority_counterexample:
  "activate lateRoom = Inr lateRoom_after \<and>
   map idp (players lateRoom_after) = [''p1'', ''p2''] \<and>
   map point (players lateRoom_after) = [12, 45] \<and>
   winnerId lateRoom_after = Some ''p1''"
  by (simp add: lateRoom_def lateRoom_after_def resolver_defs example_defs)

text \<open>
  Claim C3, amended. In a room of two players the resolver returns a room, and when
  neither updated player has 40 points or 3 shocks, \<open>winnerId\<close> is set exactly when one
  chair remains after the activation: to the strictly higher scorer, or to \<open>draw\<close> on a
  tie. With any other number of chairs remaining, none included, \<open>winnerId\<close> is \<open>null\<close>.
\<close>

theorem chair_exhaustion:
  assumes ps: "players room = [p, q]"
  shows "\<exists>room' p' q'. activate room = Inr room' \<and> players room' = [p', q'] \<and>
           idp p' = idp p \<and> idp q' = idp q \<and>
           (point p' < 40 \<and> point q' < 40 \<and> shockedCount p' \<noteq> 3 \<and> shockedCount q' \<noteq> 3 \<longrightarrow>
              winnerId room' =
                (if length (remainingChairs room') = 1
                 then (if point p' < point q' then Some (idp q')
                       else if point q' = point p' then Some ''draw''
                       else Some (idp p'))
                 else None))"
proof -
  from ps have "players room \<noteq> []" by auto
  then obtain room' where r: "activate room = Inr room'"
    using activate_total by blast
  note f = activate_fields [OF r]
  have up: "updatedPlayers room =
      [updatePlayer (roundR room) p, updatePlayer (roundR room) q]"
    using ps by (simp add: updatedPlayers_def)
  have "Inr (winnerId room') = decideWinner room"
    using f(4) by simp
  then show ?thesis
    using r up f(1) f(2)
    by (auto simp: decideWinner_two [OF up] idp_updatePlayer)
qed

text \<open>The theorem at a room with chairs 4 and 7, seat 4 taken safely, 20 points each.\<close>

theorem chair_exhaustion_witness:
  "activate tieRoom = Inr tieRoom_after \<and>
   length (remainingChairs tieRoom_after) = 1 \<and>
   map point (players tieRoom_after) = [20, 20] \<and>
   winnerId tieRoom_after = Some ''draw''"
  using chair_exhaustion [of tieRoom "mkPlayer ''p1'' 16 0" "mkPlayer ''p2'' 20 0"]
  by (simp add: tieRoom_def tieRoom_after_def resolver_defs example_defs)

text \<open>
  Claim C3 as stated fails at scenario C: the only chair, 4, is taken safely, no chair
  remains, both players have 20 points, and \<open>winnerId\<close> is \<open>null\<close>, not \<open>draw\<close>.
\<close>

theorem scenarioC_counterexample:
  "remainingChairs scenarioC = [4] \<and>
   activate scenarioC = Inr scenarioC_after \<and>
   remainingChairs scenarioC_after = [] \<and>
   map point (players scenarioC_after) = [20, 20] \<and>
   map shockedCount (players scenarioC_after) = [0, 0] \<and>
   winnerId scenarioC_after = None"
  by (simp add: scenarioC_def scenarioC_after_def resolver_defs example_defs)

section \<open>No guard on the phase or the seat\<close>

lemma updatePlayer_phase: "updatePlayer (r\<lparr>phase := ph\<rparr>) p = updatePlayer r p"
  by (simp add: updatePlayer_def isShocked_def seatedOrZero_def)

lemma updatedPlayers_phase:
  "updatedPlayers (room\<lparr>roundR := (roundR room)\<lparr>phase := ph\<rparr>\<rparr>) = updatedPlayers room"
  by (simp add: updatedPlayers_def updatePlayer_phase)

lemma newRemainingChairs_phase:
  "newRemainingChairs (room\<lparr>roundR := (roundR room)\<lparr>phase := ph\<rparr>\<rparr>) = newRemainingChairs room"
  by (simp add: newRemainingChairs_def isShocked_def)

lemma defenderId_phase:
  "defenderId (room\<lparr>roundR := (roundR room)\<lparr>phase := ph\<rparr>\<rparr>) = defenderId room"
  by (simp add: defenderId_def)

lemma decideWinner_phase:
  "decideWinner (room\<lparr>roundR := (roundR room)\<lparr>phase := ph\<rparr>\<rparr>) = decideWinner room"
  by (simp add: decideWinner_def updatedPlayers_phase newRemainingChairs_phase defenderId_phase)

lemma resultRound_phase: "resultRound (r\<lparr>phase := ph\<rparr>) = resultRound r"
  by (simp add: resultRound_def isShocked_def)

lemma activate_phase:
  "activate (room\<lparr>roundR := (roundR room)\<lparr>phase := ph\<rparr>\<rparr>) = activate room"
  by (simp add: activate_def activateData_def decideWinner_phase updatedPlayers_phase
      newRemainingChairs_phase resultRound_phase applyUpdate_def split: sum.splits)

lemma activateAction_errors:
  "fst (activateAction st rid) = Inl e \<Longrightarrow> e = NotFound \<or> e = TypeError"
  by (auto simp: activateAction_def getRoom_def updateRoom_def
      activateData_def decideWinner_def reduceWinner_def
      split: option.splits sum.splits if_splits list.splits)

text \<open>
  Claim C4, amended. \<open>activateAction\<close> has no guard on \<open>round.phase\<close> or on \<open>seatedChair\<close>:
  for a stored room with at least one player it computes the new room and writes it,
  whatever the phase (the new room does not depend on it). With \<open>seatedChair\<close> null and
  an electric chair set, the outcome is \<open>safe\<close>, the seat counts 0 points, and players and
  chairs stay as they were.
\<close>

theorem activate_unguarded:
  assumes st: "st rid = Some room" and ps: "players room \<noteq> []"
  shows "\<exists>room'. activateAction st rid = (Inr room', st(rid \<mapsto> room')) \<and>
           activate room = Inr room' \<and>
           activate (room\<lparr>roundR := (roundR room)\<lparr>phase := ph\<rparr>\<rparr>) = Inr room' \<and>
           phase (roundR room') = Result \<and>
           (seatedChair (roundR room) = None \<and> electricChair (roundR room) \<noteq> None \<longrightarrow>
              players room' = players room \<and>
              remainingChairs room' = remainingChairs room \<and>
              status (result (roundR room')) = Some Safe)"
proof -
  obtain room' where r: "activate room = Inr room'"
    using ps activate_total by blast
  have act: "activateAction st rid = (Inr room', st(rid \<mapsto> room'))"
    using r st
    by (auto simp: activateAction_def getRoom_def updateRoom_def activate_def
        split: sum.splits)
  have ph: "activate (room\<lparr>roundR := (roundR room)\<lparr>phase := ph\<rparr>\<rparr>) = activate room"
    by (rule activate_phase)
  note f = activate_fields [OF r]
  have same: "players room' = players room"
    if "seatedChair (roundR room) = None" "electricChair (roundR room) \<noteq> None"
    using that f(1) by (auto simp: updatedPlayers_def updatePlayer_def isShocked_def
        seatedOrZero_def intro: map_idI)
  show ?thesis
    using r act ph f(2) f(3) same
    by (auto simp: resultRound_def newRemainingChairs_def isShocked_def)
qed

text \<open>The theorem at a stored room in its \<open>select\<close> phase with no seat chosen.\<close>

theorem activate_unguarded_witness:
  "activateAction [''room1'' \<mapsto> selectRoom] ''room1'' =
     (Inr selectRoom_after, [''room1'' \<mapsto> selectRoom_after]) \<and>
   players selectRoom_after = players selectRoom \<and>
   phase (roundR selectRoom_after) = Result"
  using activate_unguarded [of "[''room1'' \<mapsto> selectRoom]" "''room1''" selectRoom Select]
  by (simp add: selectRoom_def selectRoom_after_def resolver_defs example_defs)

text \<open>
  Claim C4 as stated fails at that room: the phase is \<open>select\<close>, \<open>seatedChair\<close> is null,
  and \<open>activateAction\<close> answers a new room and stores it.
\<close>

theorem invalid_state_counterexample:
  "phase (roundR selectRoom) = Select \<and> seatedChair (roundR selectRoom) = None \<and>
   fst (activateAction [''room1'' \<mapsto> selectRoom] ''room1'') = Inr selectRoom_after \<and>
   snd (activateAction [''room1'' \<mapsto> selectRoom] ''room1'') ''room1'' = Some selectRoom_after \<and>
   selectRoom_after \<noteq> selectRoom"
  by (simp add: activateAction_def getRoom_def updateRoom_def selectRoom_def
      selectRoom_after_def resolver_defs example_defs)

section \<open>The next round\<close>

lemma nextAttackerId_two:
  "nextAttackerId r [x, y] =
     (if x \<noteq> attackerId r then x else if y \<noteq> attackerId r then y else x)"
  by (simp add: nextAttackerId_def)

text \<open>
  Claim C5. On the second confirmation (\<open>confirmedIds\<close> has two entries) the callback
  answers an update of the round alone. The new round's attacker is the first confirmed
  id that differs from the current attacker, and the first confirmed id if both are the
  current attacker; after \<open>top\<close> comes \<open>bottom\<close> with the same count, after \<open>bottom\<close> comes
  \<open>top\<close> with the count raised by 1; phase, chairs and result are those of
  \<^verbatim>\<open>plainRoundData.round\<close>, which as the specification describes it means phase \<open>select\<close>,
  no chairs, no status, nobody confirmed and no result shown.
\<close>

theorem next_round:
  assumes len: "length cids = 2"
  shows "\<exists>nr. changeTurnResolver plain r cids = Some (noUpdate\<lparr>u_round := Some nr\<rparr>) \<and>
           attackerId nr =
             (if cids ! 0 \<noteq> attackerId r then cids ! 0
              else if cids ! 1 \<noteq> attackerId r then cids ! 1
              else cids ! 0) \<and>
           attackerId nr \<in> set cids \<and>
           turn nr = (if turn r = Top then Bottom else Top) \<and>
           count nr = (if turn r = Top then count r else count r + 1) \<and>
           phase nr = phase plain \<and>
           electricChair nr = electricChair plain \<and>
           seatedChair nr = seatedChair plain \<and>
           result nr = result plain \<and>
           (plain = plainRound \<longrightarrow>
              phase nr = Select \<and> electricChair nr = None \<and> seatedChair nr = None \<and>
              status (result nr) = None \<and> confirmedIds (result nr) = [] \<and>
              shownResult (result nr) = False)"
proof -
  from len obtain x y where cids: "cids = [x, y]"
    by (cases cids; cases "tl cids") auto
  define nr where "nr =
    plain\<lparr>attackerId := nextAttackerId r cids,
          turn := (if turn r = Top then Bottom else Top),
          count := (if turn r = Top then count r else count r + 1)\<rparr>"
  have upd: "changeTurnResolver plain r cids = Some (noUpdate\<lparr>u_round := Some nr\<rparr>)"
    by (simp add: changeTurnResolver_def len nr_def)
  have att: "attackerId nr =
      (if cids ! 0 \<noteq> attackerId r then cids ! 0
       else if cids ! 1 \<noteq> attackerId r then cids ! 1
       else cids ! 0)"
    by (simp add: nr_def cids nextAttackerId_two)
  have mem: "attackerId nr \<in> set cids"
    by (simp add: nr_def cids nextAttackerId_two)
  have tc: "turn nr = (if turn r = Top then Bottom else Top)"
    "count nr = (if turn r = Top then count r else count r + 1)"
    by (simp_all add: nr_def)
  have plain: "phase nr = phase plain" "electricChair nr = electricChair plain"
    "seatedChair nr = seatedChair plain" "result nr = result plain"
    by (simp_all add: nr_def)
  have init: "phase plainRound = Select" "electricChair plainRound = None"
    "seatedChair plainRound = None" "status (result plainRound) = None"
    "confirmedIds (result plainRound) = []" "shownResult (result plainRound) = False"
    by (simp_all add: plainRound_def)
  show ?thesis
    using upd att mem tc plain init by (intro exI [of _ nr]) simp
qed

text \<open>The theorem at scenario D: turn \<open>bottom\<close>, count 3, attacker \<open>p1\<close>, confirmed by both.\<close>

theorem next_round_witness:
  "changeTurnResolver plainRound scenarioD_round [''p1'', ''p2''] =
     Some (noUpdate\<lparr>u_round := Some (plainRound\<lparr>attackerId := ''p2'', turn := Top, count := 4\<rparr>)\<rparr>) \<and>
   phase (plainRound\<lparr>attackerId := ''p2'', turn := Top, count := 4\<rparr>) = Select \<and>
   confirmedIds (result (plainRound\<lparr>attackerId := ''p2'', turn := Top, count := 4\<rparr>)) = []"
  using next_round [of "[''p1'', ''p2'']" plainRound scenarioD_round]
  by (simp add: changeTurnResolver_def nextAttackerId_def scenarioD_round_def plainRound_def
      example_defs)

section \<open>Confirmation at saturation\<close>

text \<open>
  Claim C6. Against a stored round whose \<open>confirmedIds\<close> already has two entries, the
  callback receives three and answers \<^verbatim>\<open>null\<close>; \<open>changeTurnAction\<close> leaves the store as it
  was, and for a player of the room and a round in its \<open>result\<close> phase it answers the
  unchanged room.
\<close>

theorem saturated_noop:
  assumes st: "st rid = Some room"
    and two: "length (confirmedIds (result (roundR room))) = 2"
  shows "changeTurnResolver plain (roundR room)
           (confirmedIds (result (roundR room)) @ [userId]) = None \<and>
         snd (changeTurnAction plain st rid userId) = st \<and>
         (userId \<in> set (map idp (players room)) \<and> phase (roundR room) = Result \<longrightarrow>
            changeTurnAction plain st rid userId = (Inr room, st))"
proof -
  have none: "changeTurnResolver plain (roundR room)
      (confirmedIds (result (roundR room)) @ [userId]) = None"
    using two by (simp add: changeTurnResolver_def)
  show ?thesis
    using st none by (simp add: changeTurnAction_def confirmTurnResult_def)
qed

text \<open>The theorem at a stored room already confirmed by \<open>p1\<close> and \<open>p2\<close>.\<close>

theorem saturated_noop_witness:
  "changeTurnAction plainRound [''room1'' \<mapsto> saturatedRoom] ''room1'' ''p1'' =
     (Inr saturatedRoom, [''room1'' \<mapsto> saturatedRoom])"
  using saturated_noop [of "[''room1'' \<mapsto> saturatedRoom]" "''room1''" saturatedRoom
      plainRound "''p1''"]
  by (simp add: saturatedRoom_def scenarioD_round_def example_defs)

section \<open>The winner across applications\<close>

lemma changeTurnResolver_round_only:
  assumes "changeTurnResolver plain r cids = Some upd"
  shows "u_players upd = None" and "u_remainingChairs upd = None" and "u_winnerId upd = None"
  using assms by (auto simp: changeTurnResolver_def noUpdate_def split: if_splits)

lemma activate_winnerId: "activate (room\<lparr>winnerId := w\<rparr>) = activate room"
proof -
  have "updatedPlayers (room\<lparr>winnerId := w\<rparr>) = updatedPlayers room"
    by (simp add: updatedPlayers_def)
  moreover have "newRemainingChairs (room\<lparr>winnerId := w\<rparr>) = newRemainingChairs room"
    by (simp add: newRemainingChairs_def)
  moreover have "defenderId (room\<lparr>winnerId := w\<rparr>) = defenderId room"
    by (simp add: defenderId_def)
  ultimately have "decideWinner (room\<lparr>winnerId := w\<rparr>) = decideWinner room"
    by (simp add: decideWinner_def)
  then show ?thesis
    by (simp add: activate_def activateData_def updatedPlayers_def newRemainingChairs_def
        applyUpdate_def split: sum.splits)
qed

text \<open>
  Claim C7, amended. A confirmation that succeeds leaves \<open>winnerId\<close>, the players and the
  remaining chairs as they were. The resolver does not read the stored \<open>winnerId\<close>: it
  decides the winner anew from players, round and chairs and overwrites the field, so
  a winner stays set only as long as the resolver is not applied again.
\<close>

theorem winnerId_frame:
  assumes st: "st rid = Some room"
    and ok: "changeTurnAction plain st rid userId = (Inr room', st')"
  shows "winnerId room' = winnerId room \<and> players room' = players room \<and>
         remainingChairs room' = remainingChairs room \<and>
         activate (room\<lparr>winnerId := w\<rparr>) = activate room"
proof (cases "changeTurnResolver plain (roundR room)
                (confirmedIds (result (roundR room)) @ [userId])")
  case None
  then have "room' = room"
    using st ok
    by (auto simp: changeTurnAction_def confirmTurnResult_def split: if_splits)
  then show ?thesis by (simp add: activate_winnerId)
next
  case (Some upd)
  then have "room' = applyUpdate room upd"
    using st ok
    by (auto simp: changeTurnAction_def confirmTurnResult_def updateRoom_def split: if_splits)
  then show ?thesis
    using changeTurnResolver_round_only [OF Some]
    by (simp add: applyUpdate_def activate_winnerId)
qed

text \<open>The theorem at scenario A after its activation, confirmed by \<open>p1\<close>.\<close>

theorem winnerId_frame_witness:
  "changeTurnAction plainRound [''room1'' \<mapsto> scenarioA_after] ''room1'' ''p1'' =
     (Inr confirmedOnce, [''room1'' \<mapsto> confirmedOnce]) \<and>
   winnerId confirmedOnce = winnerId scenarioA_after \<and>
   activate (scenarioA_after\<lparr>winnerId := None\<rparr>) = activate scenarioA_after"
  using winnerId_frame [of "[''room1'' \<mapsto> scenarioA_after]" "''room1''" scenarioA_after
      plainRound "''p1''" confirmedOnce "[''room1'' \<mapsto> confirmedOnce]" None]
  by (simp add: changeTurnAction_def confirmTurnResult_def updateRoom_def applyUpdate_def
      changeTurnResolver_def noUpdate_def scenarioA_after_def confirmedOnce_def example_defs)

text \<open>
  Claim C7 as stated fails in \<open>wonRoom\<close>: \<open>winnerId\<close> is \<open>p1\<close>, the attacker \<open>p1\<close> is shocked
  and loses the 40 points, and the resolver sets \<open>winnerId\<close> back to \<open>null\<close>.
\<close>

theorem winnerId_reverts_counterexample:
  "winnerId wonRoom = Some ''p1'' \<and>
   activate wonRoom = Inr wonRoom_after \<and>
   winnerId wonRoom_after = None"
  by (simp add: wonRoom_def wonRoom_after_def resolver_defs example_defs)

text \<open>
  The same through the actions alone, from scenario A: the activation makes \<open>p1\<close> the
  winner, both players confirm, and the activation of the fresh round (no chairs chosen,
  hence a shock for the new attacker \<open>p2\<close>) makes \<open>p2\<close> the winner.
\<close>

lemma winner_changes_in_play:
  "activateAction [''room1'' \<mapsto> scenarioA] ''room1'' =
     (Inr scenarioA_after, [''room1'' \<mapsto> scenarioA_after])"
  "changeTurnAction plainRound [''room1'' \<mapsto> scenarioA_after] ''room1'' ''p1'' =
     (Inr confirmedOnce, [''room1'' \<mapsto> confirmedOnce])"
  "changeTurnAction plainRound [''room1'' \<mapsto> confirmedOnce] ''room1'' ''p2'' =
     (Inr nextRoundRoom, [''room1'' \<mapsto> nextRoundRoom])"
  "activateAction [''room1'' \<mapsto> nextRoundRoom] ''room1'' =
     (Inr nextRoundRoom_after, [''room1'' \<mapsto> nextRoundRoom_after])"
  "winnerId scenarioA = None"
  "winnerId scenarioA_after = Some ''p1''"
  "winnerId nextRoundRoom_after = Some ''p2''"
  by (simp_all add: activateAction_def getRoom_def changeTurnAction_def confirmTurnResult_def
      updateRoom_def changeTurnResolver_def nextAttackerId_def noUpdate_def plainRound_def
      scenarioA_def scenarioA_after_def confirmedOnce_def nextRoundRoom_def
      nextRoundRoom_after_def resolver_defs example_defs)

section \<open>Points and shock counts across an application\<close>

text \<open>
  Claim C8, amended. Across a resolver application no player's \<open>shockedCount\<close> decreases;
  the \<open>point\<close> of a player who is not the attacker is unchanged; on a safe outcome with a
  seat that is null or not negative no \<open>point\<close> decreases; on a shock the attacker's \<open>point\<close>
  becomes 0.
\<close>

theorem stats_monotone:
  assumes r: "activate room = Inr room'" and i: "i < length (players room)"
  shows "shockedCount (players room ! i) \<le> shockedCount (players room' ! i) \<and>
         (idp (players room ! i) \<noteq> attackerId (roundR room) \<longrightarrow>
            point (players room' ! i) = point (players room ! i)) \<and>
         (electricChair (roundR room) \<noteq> seatedChair (roundR room) \<and>
          (\<forall>c. seatedChair (roundR room) = Some c \<longrightarrow> 0 \<le> c) \<longrightarrow>
            point (players room ! i) \<le> point (players room' ! i)) \<and>
         (electricChair (roundR room) = seatedChair (roundR room) \<and>
          idp (players room ! i) = attackerId (roundR room) \<longrightarrow>
            point (players room' ! i) = 0)"
proof -
  have nth: "players room' ! i = updatePlayer (roundR room) (players room ! i)"
    using activate_fields(1) [OF r] i by (simp add: updatedPlayers_nth)
  show ?thesis
    unfolding nth
    by (auto simp: updatePlayer_def isShocked_def seatedOrZero_def split: option.splits)
qed

text \<open>The theorem at scenario A (both players) and at scenario B (the attacker).\<close>

theorem stats_monotone_witness:
  "activate scenarioA = Inr scenarioA_after \<and>
   shockedCount (players scenarioA ! 0) \<le> shockedCount (players scenarioA_after ! 0) \<and>
   point (players scenarioA ! 0) \<le> point (players scenarioA_after ! 0) \<and>
   point (players scenarioA_after ! 1) = point (players scenarioA ! 1) \<and>
   activate scenarioB = Inr scenarioB_after \<and>
   shockedCount (players scenarioB ! 0) \<le> shockedCount (players scenarioB_after ! 0) \<and>
   point (players scenarioB_after ! 0) = 0"
  using stats_monotone [of scenarioA scenarioA_after 0]
    stats_monotone [of scenarioA scenarioA_after 1]
    stats_monotone [of scenarioB scenarioB_after 0]
  by (simp add: scenarioA_def scenarioA_after_def scenarioB_def scenarioB_after_def
      resolver_defs example_defs)

text \<open>Claim C8 as stated fails at scenario B: the attacker's 12 points become 0.\<close>

theorem point_decreases_counterexample:
  "activate scenarioB = Inr scenarioB_after \<and>
   point (players scenarioB ! 0) = 12 \<and>
   point (players scenarioB_after ! 0) = 0"
  by (simp add: scenarioB_def scenarioB_after_def resolver_defs example_defs)

section \<open>The remaining chairs\<close>

lemma length_filter_count_list:
  "length (filter (\<lambda>x. x \<noteq> c) xs) + count_list xs c = length xs"
  by (induction xs) auto

lemma distinct_count_list_le: "distinct xs \<Longrightarrow> count_list xs c \<le> 1"
  by (induction xs) auto

lemma defenderId_Some:
  "\<exists>p\<in>set (players room). idp p \<noteq> attackerId (roundR room) \<Longrightarrow> defenderId room \<noteq> None"
  by (auto simp: defenderId_def find_None_iff)

lemma decideWinner_last_chair:
  assumes "decideWinner room = Inr w" and "length (newRemainingChairs room) = 1"
    and "\<exists>p\<in>set (players room). idp p \<noteq> attackerId (roundR room)"
  shows "w \<noteq> None"
proof -
  from defenderId_Some [OF assms(3)] obtain d where d: "defenderId room = Some d"
    by auto
  from assms(1,2) show ?thesis
    unfolding decideWinner_def d by (auto split: if_splits sum.splits)
qed

text \<open>
  Claim C9, amended. Across a resolver application the number of remaining chairs does
  not grow. On a shock the chairs are unchanged. On a safe outcome every occurrence of
  the seat is removed: one element when the seat occurs once among the chairs, none when
  it does not occur or is null. From two or more distinct chairs at least one remains,
  and when exactly one remains in a room that has a player other than the attacker,
  \<open>winnerId\<close> is set. The resolver has no lower bound beyond that.
\<close>

theorem chairs_shrink:
  assumes r: "activate room = Inr room'"
  shows "length (remainingChairs room') \<le> length (remainingChairs room) \<and>
         (electricChair (roundR room) = seatedChair (roundR room) \<longrightarrow>
            remainingChairs room' = remainingChairs room) \<and>
         (electricChair (roundR room) \<noteq> seatedChair (roundR room) \<longrightarrow>
            (case seatedChair (roundR room) of
               None \<Rightarrow> remainingChairs room' = remainingChairs room
             | Some c \<Rightarrow>
                 remainingChairs room' = filter (\<lambda>x. x \<noteq> c) (remainingChairs room) \<and>
                 length (remainingChairs room') + count_list (remainingChairs room) c =
                   length (remainingChairs room))) \<and>
         (distinct (remainingChairs room) \<and> 2 \<le> length (remainingChairs room) \<longrightarrow>
            1 \<le> length (remainingChairs room')) \<and>
         (length (remainingChairs room') = 1 \<and>
          (\<exists>p\<in>set (players room). idp p \<noteq> attackerId (roundR room)) \<longrightarrow>
            winnerId room' \<noteq> None)"
proof -
  note f = activate_fields [OF r]
  have rem: "remainingChairs room' =
      (if electricChair (roundR room) = seatedChair (roundR room) then remainingChairs room
       else case seatedChair (roundR room) of
              None \<Rightarrow> remainingChairs room
            | Some c \<Rightarrow> filter (\<lambda>x. x \<noteq> c) (remainingChairs room))"
    unfolding f(2) by (simp add: newRemainingChairs_def isShocked_def split: option.splits)
  have le: "length (remainingChairs room') \<le> length (remainingChairs room)"
    by (simp add: rem split: option.splits)
  have cnt: "length (remainingChairs room') + count_list (remainingChairs room) c =
      length (remainingChairs room)"
    if "electricChair (roundR room) \<noteq> seatedChair (roundR room)"
      "seatedChair (roundR room) = Some c" for c
    using that by (simp add: rem length_filter_count_list)
  have low: "1 \<le> length (remainingChairs room')"
    if d: "distinct (remainingChairs room)" and two: "2 \<le> length (remainingChairs room)"
  proof (cases "electricChair (roundR room) = seatedChair (roundR room)")
    case True
    then show ?thesis using two by (simp add: rem)
  next
    case False
    show ?thesis
    proof (cases "seatedChair (roundR room)")
      case None
      then show ?thesis using False two by (simp add: rem)
    next
      case (Some c)
      from cnt [OF False Some] distinct_count_list_le [OF d, of c] two
      show ?thesis by linarith
    qed
  qed
  have win: "winnerId room' \<noteq> None"
    if "length (remainingChairs room') = 1"
      "\<exists>p\<in>set (players room). idp p \<noteq> attackerId (roundR room)"
    using decideWinner_last_chair [OF f(4)] that by (simp add: f(2))
  show ?thesis
    using le cnt low win rem by (auto split: option.splits)
qed

text \<open>The theorem at scenario A (safe), scenario B (shock) and the tie on the last chair.\<close>

theorem chairs_shrink_witness:
  "activate scenarioA = Inr scenarioA_after \<and>
   remainingChairs scenarioA = [2, 5, 7] \<and> remainingChairs scenarioA_after = [5, 7] \<and>
   activate scenarioB = Inr scenarioB_after \<and>
   remainingChairs scenarioB_after = remainingChairs scenarioB \<and>
   activate tieRoom = Inr tieRoom_after \<and>
   length (remainingChairs tieRoom_after) = 1 \<and> winnerId tieRoom_after \<noteq> None"
  using chairs_shrink [of scenarioA scenarioA_after]
    chairs_shrink [of scenarioB scenarioB_after]
    chairs_shrink [of tieRoom tieRoom_after]
  by (simp add: scenarioA_def scenarioA_after_def scenarioB_def scenarioB_after_def
      tieRoom_def tieRoom_after_def resolver_defs example_defs)

text \<open>
  Claim C9 as stated fails at scenario C: after the activation no chair remains and
  \<open>winnerId\<close> is \<open>null\<close>.
\<close>

theorem chairs_empty_counterexample:
  "winnerId scenarioC = None \<and>
   activate scenarioC = Inr scenarioC_after \<and>
   length (remainingChairs scenarioC_after) = 0 \<and>
   winnerId scenarioC_after = None"
  by (simp add: scenarioC_def scenarioC_after_def resolver_defs example_defs)

section \<open>What the resolver leaves alone\<close>

text \<open>
  Claim C10. Across a resolver application every player whose id is not the attacker's
  is returned as it was, and of the round only \<open>phase\<close>, now \<open>result\<close>, and
  \<open>result.status\<close>, now \<open>shocked\<close> or \<open>safe\<close>, change: attacker, turn, count, both chairs,
  \<open>confirmedIds\<close> and \<open>shownResult\<close> are carried over.
\<close>

theorem activate_frame:
  assumes r: "activate room = Inr room'"
  shows "length (players room') = length (players room) \<and>
         (\<forall>i<length (players room).
            idp (players room ! i) \<noteq> attackerId (roundR room) \<longrightarrow>
            players room' ! i = players room ! i) \<and>
         attackerId (roundR room') = attackerId (roundR room) \<and>
         turn (roundR room') = turn (roundR room) \<and>
         count (roundR room') = count (roundR room) \<and>
         electricChair (roundR room') = electricChair (roundR room) \<and>
         seatedChair (roundR room') = seatedChair (roundR room) \<and>
         confirmedIds (result (roundR room')) = confirmedIds (result (roundR room)) \<and>
         shownResult (result (roundR room')) = shownResult (result (roundR room)) \<and>
         phase (roundR room') = Result \<and>
         status (result (roundR room')) =
           Some (if electricChair (roundR room) = seatedChair (roundR room)
                 then Shocked else Safe)"
proof -
  note f = activate_fields [OF r]
  have other: "players room' ! i = players room ! i"
    if "i < length (players room)" "idp (players room ! i) \<noteq> attackerId (roundR room)" for i
    using that by (simp add: f(1) updatedPlayers_nth updatePlayer_other)
  show ?thesis
    using other
    by (simp add: f(1) f(3) length_updatedPlayers resultRound_def isShocked_def)
qed

text \<open>The theorem at scenario A.\<close>

theorem activate_frame_witness:
  "activate scenarioA = Inr scenarioA_after \<and>
   players scenarioA_after ! 1 = players scenarioA ! 1 \<and>
   attackerId (roundR scenarioA_after) = attackerId (roundR scenarioA) \<and>
   electricChair (roundR scenarioA_after) = electricChair (roundR scenarioA) \<and>
   seatedChair (roundR scenarioA_after) = seatedChair (roundR scenarioA) \<and>
   phase (roundR scenarioA_after) = Result \<and>
   status (result (roundR scenarioA_after)) = Some Safe"
  using activate_frame [of scenarioA scenarioA_after]
  by (simp add: scenarioA_def scenarioA_after_def resolver_defs example_defs)

end
